theory Spec2Isabelle
  imports Main "HOL-Library.Word"
begin

section \<open>The condition checker of util/ranger/checker.go\<close>

text \<open>
  The checker decides whether a filter condition can be used as an access condition on
  one index column, and whether an accepted condition must also stay a filter
  (\<open>shouldReserve\<close>). The theory embeds \<open>check\<close>, \<open>checkScalarFunction\<close>,
  \<open>checkLikeFunc\<close>, \<open>checkColumn\<close> and \<open>GetLengthOfPrefixableConstant\<close>.

  Go's \<open>int64\<close> is \<open>64 word\<close>. Go's \<open>int\<close> holds only lengths, the sentinel \<open>-1\<close>
  and indices that stay below a length plus two, so no operation on it overflows: it is
  \<open>int\<close>, and \<open>nat\<close> for an index. A Go \<open>string\<close> and a \<open>[]byte\<close> are byte
  sequences: \<open>string\<close> (a \<open>char\<close> is one byte).
\<close>

subsection \<open>The consumed data: field types, datums, expressions\<close>

text \<open>\<open>types.EvalType\<close>: the evaluation class of a field type.\<close>

datatype EvalType = ETInt | ETReal | ETDecimal | ETString | ETDatetime | ETTimestamp
  | ETDuration | ETJson

text \<open>
  Modelled from the spec: \<open>types.FieldType\<close> is declared outside \<open>src/\<close>. The spec
  gives it a value-kind classification, a charset name and a declared collation; the
  checker reads exactly \<open>EvalType()\<close>, \<open>Charset\<close> and \<open>Collate\<close>.
\<close>

record FieldType =
  EvalType :: EvalType
  Charset :: string
  Collate :: string

text \<open>The two charset names of package \<open>charset\<close> that the estimator compares with.\<close>

definition CharsetUTF8 :: string where
  "CharsetUTF8 = ''utf8''"

definition CharsetUTF8MB4 :: string where
  "CharsetUTF8MB4 = ''utf8mb4''"

text \<open>\<open>types.Datum\<close>'s kind tag; the source names \<open>KindBytes\<close> and \<open>KindString\<close>.\<close>

datatype Kind = KindNull | KindInt64 | KindUint64 | KindFloat32 | KindFloat64
  | KindString | KindBytes | KindBinaryLiteral | KindMysqlDecimal | KindMysqlDuration
  | KindMysqlEnum | KindMysqlBit | KindMysqlSet | KindMysqlTime | KindInterface
  | KindMinNotNull | KindMaxValue | KindRaw | KindMysqlJSON

text \<open>The error value of a Go \<open>(value, error)\<close> result; its content is never read.\<close>

datatype error = Error string

text \<open>
  Modelled from the spec: \<open>types.Datum\<close> is declared outside \<open>src/\<close>. The spec lists
  its introspection as \<open>kind()\<close>, \<open>as_bytes()\<close>, \<open>is_null()\<close> and
  \<open>to_string() -> result\<close>, and the escape argument as a constant integer. A datum
  is represented by the results of the five methods the checker calls on it, with no
  relation assumed between them.
\<close>

record Datum =
  Kind :: Kind
  GetBytes :: string
  GetInt64 :: "64 word"
  IsNull :: bool
  ToString :: "error + string"

text \<open>The parameter marker of a constant; only its presence is tested.\<close>

datatype ParamMarker = NewParamMarker (order: int)

text \<open>\<open>expression.Column\<close>: the unique id and the declared type.\<close>

record Column =
  UniqueID :: "64 word"
  RetType :: FieldType

text \<open>
  The lower-cased function names (\<open>FuncName.L\<close>) that the checker switches on, the
  constants \<open>ast.LogicOr\<close> to \<open>ast.GetParam\<close> of package \<open>ast\<close>; \<open>OtherFunc\<close> is
  any other name.
\<close>

datatype funcName = ast_LogicOr | ast_LogicAnd | ast_EQ | ast_NE | ast_GE | ast_GT
  | ast_LE | ast_LT | ast_NullEQ | ast_IsNull | ast_IsTruthWithoutNull | ast_IsFalsity
  | ast_IsTruthWithNull | ast_UnaryNot | ast_In | ast_Like | ast_GetParam
  | OtherFunc string

text \<open>
  \<open>expression.Constant\<close> and \<open>expression.ScalarFunction\<close>, over the type \<open>'e\<close> of
  expressions. \<open>Collation\<close> is the collation that \<open>CharsetAndCollation\<close> derives for
  the function.
\<close>

datatype 'e Constant = Constant (Value: Datum) (ConstRetType: FieldType)
  (DeferredExpr: "'e option") (ParamMarker: "ParamMarker option")

datatype 'e ScalarFunction = ScalarFunction (FuncName_L: funcName) (GetArgs: "'e list")
  (FuncRetType: FieldType) (Collation: string)

text \<open>
  \<open>expression.Expression\<close>: the interface and the dynamic types the checker switches
  on. Every other implementation (a correlated column, for one) is \<open>ExprOther\<close> with
  its type. No pointer inside a tree (a node, its type) is nil.
\<close>

datatype Expression =
    ExprScalarFunction "Expression ScalarFunction"
  | ExprColumn Column
  | ExprConstant "Expression Constant"
  | ExprOther FieldType

fun GetType :: "Expression \<Rightarrow> FieldType" where
  "GetType (ExprScalarFunction s) = FuncRetType s"
| "GetType (ExprColumn x) = RetType x"
| "GetType (ExprConstant k) = ConstRetType k"
| "GetType (ExprOther t) = t"

subsection \<open>The checker's state and Go's panics\<close>

record conditionChecker =
  colUniqueID :: "64 word"
  shouldReserve :: bool
  length' :: int
  isFullLength :: bool

text \<open>
  A run-time panic of Go: an index out of range, or a type assertion without the
  \<open>ok\<close> result on a value of another dynamic type.
\<close>

datatype panic = IndexOutOfRange | TypeAssertion

text \<open>\<open>xs[i]\<close> on a slice.\<close>

definition index :: "'a list \<Rightarrow> nat \<Rightarrow> panic + 'a" where
  "index xs i = (if i < length xs then Inr (xs ! i) else Inl IndexOutOfRange)"

subsection \<open>Go's \<open>utf8.RuneCount\<close>\<close>

text \<open>
  The standard library's \<open>unicode/utf8\<close>: the table \<open>first\<close> gives, for a leading
  byte, the length of the sequence and the range accepted for the second byte
  (\<open>acceptRanges\<close>); \<open>None\<close> is the entry \<open>xx\<close> of an invalid leading byte and is
  not looked up for an ASCII byte.
\<close>

definition first :: "nat \<Rightarrow> (nat \<times> nat \<times> nat) option" where
  "first c =
    (if 0xC2 \<le> c \<and> c \<le> 0xDF then Some (2, 0x80, 0xBF)
     else if c = 0xE0 then Some (3, 0xA0, 0xBF)
     else if 0xE1 \<le> c \<and> c \<le> 0xEC then Some (3, 0x80, 0xBF)
     else if c = 0xED then Some (3, 0x80, 0x9F)
     else if 0xEE \<le> c \<and> c \<le> 0xEF then Some (3, 0x80, 0xBF)
     else if c = 0xF0 then Some (4, 0x90, 0xBF)
     else if 0xF1 \<le> c \<and> c \<le> 0xF3 then Some (4, 0x80, 0xBF)
     else if c = 0xF4 then Some (4, 0x80, 0x8F)
     else None)"

text \<open>
  One round of the loop of \<open>RuneCount\<close> at index \<open>i < length p\<close>: the number of
  bytes the index advances by. An erroneous or short encoding advances by one byte.
\<close>

definition runeStep :: "string \<Rightarrow> nat \<Rightarrow> nat" where
  "runeStep p i =
    (let c = (of_char (p ! i) :: nat) in
     if c < 0x80 then 1
     else case first c of
       None \<Rightarrow> 1
     | Some (size', lo, hi) \<Rightarrow>
         if i + size' > length p then 1
         else if of_char (p ! (i + 1)) < lo \<or> hi < of_char (p ! (i + 1)) then 1
         else if size' = 2 then 2
         else if (of_char (p ! (i + 2)) :: nat) < 0x80 \<or> 0xBF < (of_char (p ! (i + 2)) :: nat) then 1
         else if size' = 3 then 3
         else if (of_char (p ! (i + 3)) :: nat) < 0x80 \<or> 0xBF < (of_char (p ! (i + 3)) :: nat) then 1
         else size')"

lemma runeStep_pos: "0 < runeStep p i"
  by (auto simp: runeStep_def Let_def first_def split: option.splits if_splits)

function RuneCountFrom :: "string \<Rightarrow> nat \<Rightarrow> int \<Rightarrow> int" where
  "RuneCountFrom p i n =
    (if i < length p then RuneCountFrom p (i + runeStep p i) (n + 1) else n)"
  by pat_completeness auto
termination
  using runeStep_pos by (relation "measure (\<lambda>(p, i, n). length p - i)") (auto simp: diff_less_mono2)

definition RuneCount :: "string \<Rightarrow> int" where
  "RuneCount p = RuneCountFrom p 0 0"

text \<open>
  The encoding that \<open>RuneCount\<close> is compared with below: a Unicode scalar value is a
  code point outside the surrogate range, and \<open>EncodeRune\<close> is its UTF-8 encoding
  (Go's \<open>utf8.EncodeRune\<close> on a valid rune), one to four bytes.
\<close>

definition scalarValue :: "nat \<Rightarrow> bool" where
  "scalarValue r = (r < 0xD800 \<or> (0xE000 \<le> r \<and> r \<le> 0x10FFFF))"

definition EncodeRune :: "nat \<Rightarrow> string" where
  "EncodeRune r =
    (if r \<le> 0x7F then [char_of r]
     else if r \<le> 0x7FF then [char_of (0xC0 + r div 64), char_of (0x80 + r mod 64)]
     else if r \<le> 0xFFFF then
       [char_of (0xE0 + r div 4096), char_of (0x80 + r div 64 mod 64), char_of (0x80 + r mod 64)]
     else
       [char_of (0xF0 + r div 262144), char_of (0x80 + r div 4096 mod 64),
        char_of (0x80 + r div 64 mod 64), char_of (0x80 + r mod 64)])"

subsection \<open>\<open>GetLengthOfPrefixableConstant\<close>\<close>

text \<open>
  \<open>Eval\<close> is the method \<open>Constant.Eval\<close> on the empty row, a parameter: the spec
  consumes it as \<open>eval(constant) -> value_or_failure\<close>. The constant is a pointer
  that the function tests against nil: \<open>None\<close>. The operands of \<open>||\<close> are tested
  from left to right.
\<close>

definition GetLengthOfPrefixableConstant ::
  "(Expression Constant \<Rightarrow> error + Datum) \<Rightarrow> Expression Constant option \<Rightarrow> FieldType \<Rightarrow> int" where
  "GetLengthOfPrefixableConstant Eval c tp =
    (case c of
       None \<Rightarrow> -1
     | Some k \<Rightarrow>
         if DeferredExpr k \<noteq> None then -1
         else if ParamMarker k \<noteq> None then -1
         else (case Eval k of
           Inl err \<Rightarrow> -1
         | Inr val \<Rightarrow>
             if Kind val \<noteq> KindBytes \<and> Kind val \<noteq> KindString then -1
             else let colCharset = Charset tp;
                      isUTF8Charset = (colCharset = CharsetUTF8 \<or> colCharset = CharsetUTF8MB4)
                  in if isUTF8Charset then RuneCount (GetBytes val)
                     else int (length (GetBytes val))))"

subsection \<open>\<open>checkColumn\<close> and \<open>checkLikeFunc\<close>\<close>

definition checkColumn :: "conditionChecker \<Rightarrow> Expression \<Rightarrow> bool" where
  "checkColumn c expr =
    (case expr of
       ExprColumn col \<Rightarrow> colUniqueID c = UniqueID col
     | _ \<Rightarrow> False)"

text \<open>\<open>byte(x)\<close> of an \<open>int64\<close>: its low eight bits.\<close>

definition byte :: "64 word \<Rightarrow> char" where
  "byte x = char_of (uint x)"

text \<open>
  The \<open>for\<close> loop of \<open>checkLikeFunc\<close> from index \<open>i\<close>, with what the function
  returns after it. \<open>continue\<close> runs the loop's \<open>i++\<close>; \<open>break\<close> leaves for the
  final \<open>return true\<close>.
\<close>

function likeLoop :: "string \<Rightarrow> char \<Rightarrow> nat \<Rightarrow> conditionChecker \<Rightarrow> bool \<times> conditionChecker" where
  "likeLoop patternStr escape i c =
    (if i < length patternStr then
       if patternStr ! i = escape then
         (if int (i + 1) < int (length patternStr) - 1
          then likeLoop patternStr escape (i + 1 + 1) c
          else (True, c))
       else if i = 0 \<and> (patternStr ! i = CHR ''%'' \<or> patternStr ! i = CHR ''_'') then (False, c)
       else if patternStr ! i = CHR ''%'' then
         (if int i \<noteq> int (length patternStr) - 1
          then (True, c\<lparr>shouldReserve := True\<rparr>)
          else (True, c))
       else if patternStr ! i = CHR ''_'' then (True, c\<lparr>shouldReserve := True\<rparr>)
       else likeLoop patternStr escape (i + 1) c
     else (True, c))"
  by pat_completeness auto
termination
  by (relation "measure (\<lambda>(patternStr, escape, i, c). length patternStr - i)") auto

text \<open>
  \<open>CompatibleCollate\<close> is \<open>collate.CompatibleCollate\<close>, a parameter: the spec consumes
  it as the predicate \<open>compatible(declared_collation, derived_collation)\<close>.
\<close>

definition checkLikeFunc ::
  "(string \<Rightarrow> string \<Rightarrow> bool) \<Rightarrow> conditionChecker \<Rightarrow> Expression ScalarFunction
    \<Rightarrow> panic + (bool \<times> conditionChecker)" where
  "checkLikeFunc CompatibleCollate c scalar =
    (let collation = Collation scalar in
     case index (GetArgs scalar) 0 of
       Inl p \<Rightarrow> Inl p
     | Inr a0 \<Rightarrow>
         if \<not> CompatibleCollate (Collate (GetType a0)) collation then Inr (False, c)
         else if \<not> checkColumn c a0 then Inr (False, c)
         else (case index (GetArgs scalar) 1 of
           Inl p \<Rightarrow> Inl p
         | Inr a1 \<Rightarrow>
             (case a1 of
                ExprConstant pattern \<Rightarrow>
                  if IsNull (Value pattern) then Inr (False, c)
                  else (case ToString (Value pattern) of
                    Inl err \<Rightarrow> Inr (False, c)
                  | Inr patternStr \<Rightarrow>
                      if length patternStr = 0 then Inr (True, c)
                      else (case index (GetArgs scalar) 2 of
                        Inl p \<Rightarrow> Inl p
                      | Inr a2 \<Rightarrow>
                          (case a2 of
                             ExprConstant k \<Rightarrow>
                               Inr (likeLoop patternStr (byte (GetInt64 (Value k))) 0 c)
                           | _ \<Rightarrow> Inl TypeAssertion)))
              | _ \<Rightarrow> Inr (False, c))))"

subsection \<open>\<open>check\<close> and \<open>checkScalarFunction\<close>\<close>

text \<open>
  Lines 61 to 75 and 80 to 94: what a comparison returns once one argument is the
  constant \<open>constVal\<close> and \<open>checkColumn\<close> has accepted the other, \<open>colArg\<close>.
\<close>

definition compareConstWithColumn ::
  "(string \<Rightarrow> string \<Rightarrow> bool) \<Rightarrow> (Expression Constant \<Rightarrow> error + Datum) \<Rightarrow> conditionChecker
    \<Rightarrow> Expression ScalarFunction \<Rightarrow> Expression Constant \<Rightarrow> Expression
    \<Rightarrow> bool \<times> conditionChecker" where
  "compareConstWithColumn CompatibleCollate Eval c scalar constVal colArg =
    (if EvalType (GetType colArg) = ETString
        \<and> \<not> CompatibleCollate (Collate (GetType colArg)) (Collation scalar) then (False, c)
     else if isFullLength c then (True, c)
     else let constLen = GetLengthOfPrefixableConstant Eval (Some constVal) (GetType colArg) in
       if FuncName_L scalar = ast_NE then (constLen \<noteq> -1 \<and> constLen < length' c, c)
       else if constLen = -1 \<or> constLen \<ge> length' c then (True, c\<lparr>shouldReserve := True\<rparr>)
       else (True, c))"

text \<open>
  The case \<open>ast.EQ, ast.NE, ast.GE, ast.GT, ast.LE, ast.LT, ast.NullEQ\<close> of the
  switch: the constant first, then the constant second, then the \<open>return false\<close>
  after the switch.
\<close>

definition caseComparison ::
  "(string \<Rightarrow> string \<Rightarrow> bool) \<Rightarrow> (Expression Constant \<Rightarrow> error + Datum) \<Rightarrow> conditionChecker
    \<Rightarrow> Expression ScalarFunction \<Rightarrow> panic + (bool \<times> conditionChecker)" where
  "caseComparison CompatibleCollate Eval c scalar =
    (case index (GetArgs scalar) 0 of
       Inl p \<Rightarrow> Inl p
     | Inr a0 \<Rightarrow>
         (case (case a0 of
                  ExprConstant constVal \<Rightarrow>
                    (case index (GetArgs scalar) 1 of
                       Inl p \<Rightarrow> Inl p
                     | Inr a1 \<Rightarrow>
                         if checkColumn c a1
                         then Inr (Some (compareConstWithColumn CompatibleCollate Eval c scalar constVal a1))
                         else Inr None)
                | _ \<Rightarrow> Inr None) of
            Inl p \<Rightarrow> Inl p
          | Inr (Some r) \<Rightarrow> Inr r
          | Inr None \<Rightarrow>
              (case index (GetArgs scalar) 1 of
                 Inl p \<Rightarrow> Inl p
               | Inr a1 \<Rightarrow>
                   (case a1 of
                      ExprConstant constVal \<Rightarrow>
                        if checkColumn c a0
                        then Inr (compareConstWithColumn CompatibleCollate Eval c scalar constVal a0)
                        else Inr (False, c)
                    | _ \<Rightarrow> Inr (False, c)))))"

text \<open>The \<open>for ... range scalar.GetArgs()[1:]\<close> loop of the case \<open>ast.In\<close>.\<close>

fun inLoop ::
  "(Expression Constant \<Rightarrow> error + Datum) \<Rightarrow> FieldType \<Rightarrow> conditionChecker \<Rightarrow> Expression list
    \<Rightarrow> bool \<times> conditionChecker" where
  "inLoop Eval tp c [] = (True, c)"
| "inLoop Eval tp c (v # vs) =
    (case v of
       ExprConstant constVal \<Rightarrow>
         if \<not> isFullLength c then
           (let constLen = GetLengthOfPrefixableConstant Eval (Some constVal) tp in
            if constLen = -1 \<or> constLen \<ge> length' c
            then inLoop Eval tp (c\<lparr>shouldReserve := True\<rparr>) vs
            else inLoop Eval tp c vs)
         else inLoop Eval tp c vs
     | _ \<Rightarrow> (False, c))"

text \<open>The case \<open>ast.In\<close> of the switch.\<close>

definition caseIn ::
  "(string \<Rightarrow> string \<Rightarrow> bool) \<Rightarrow> (Expression Constant \<Rightarrow> error + Datum) \<Rightarrow> conditionChecker
    \<Rightarrow> Expression ScalarFunction \<Rightarrow> panic + (bool \<times> conditionChecker)" where
  "caseIn CompatibleCollate Eval c scalar =
    (case index (GetArgs scalar) 0 of
       Inl p \<Rightarrow> Inl p
     | Inr a0 \<Rightarrow>
         if \<not> checkColumn c a0 then Inr (False, c)
         else (case index (GetArgs scalar) 1 of
           Inl p \<Rightarrow> Inl p
         | Inr a1 \<Rightarrow>
             if EvalType (GetType a1) = ETString
                \<and> \<not> CompatibleCollate (Collate (GetType a0)) (Collation scalar)
             then Inr (False, c)
             else Inr (inLoop Eval (GetType a0) c (drop 1 (GetArgs scalar)))))"

lemma index_mem: "index xs i = Inr x \<Longrightarrow> x \<in> set xs"
  by (auto simp: index_def split: if_splits)

lemma size_arg_less: "x \<in> set (GetArgs s) \<Longrightarrow> size x < size_ScalarFunction size s"
  by (cases s) (auto simp: less_Suc_eq_le size_list_estimation')

text \<open>
  The two mutually recursive methods. A result is \<open>Inr\<close> of the returned boolean
  and the checker after the call, or \<open>Inl\<close> of the panic that ended it. \<open>&&\<close>
  does not evaluate its second operand when the first is false.
\<close>

function check ::
    "(string \<Rightarrow> string \<Rightarrow> bool) \<Rightarrow> (Expression Constant \<Rightarrow> error + Datum) \<Rightarrow> conditionChecker
      \<Rightarrow> Expression \<Rightarrow> panic + (bool \<times> conditionChecker)"
  and checkScalarFunction ::
    "(string \<Rightarrow> string \<Rightarrow> bool) \<Rightarrow> (Expression Constant \<Rightarrow> error + Datum) \<Rightarrow> conditionChecker
      \<Rightarrow> Expression ScalarFunction \<Rightarrow> panic + (bool \<times> conditionChecker)" where
  "check CompatibleCollate Eval c condition =
    (case condition of
       ExprScalarFunction x \<Rightarrow> checkScalarFunction CompatibleCollate Eval c x
     | ExprColumn x \<Rightarrow>
         if EvalType (RetType x) = ETString then Inr (False, c)
         else if \<not> isFullLength c
           then Inr (checkColumn (c\<lparr>shouldReserve := True\<rparr>) condition, c\<lparr>shouldReserve := True\<rparr>)
           else Inr (checkColumn c condition, c)
     | ExprConstant x \<Rightarrow> Inr (True, c)
     | ExprOther t \<Rightarrow> Inr (False, c))"
| "checkScalarFunction CompatibleCollate Eval c scalar =
    (if FuncName_L scalar = ast_LogicOr \<or> FuncName_L scalar = ast_LogicAnd then
       (case index (GetArgs scalar) 0 of
          Inl p \<Rightarrow> Inl p
        | Inr a0 \<Rightarrow>
            (case check CompatibleCollate Eval c a0 of
               Inl p \<Rightarrow> Inl p
             | Inr (b0, c0) \<Rightarrow>
                 if \<not> b0 then Inr (False, c0)
                 else (case index (GetArgs scalar) 1 of
                   Inl p \<Rightarrow> Inl p
                 | Inr a1 \<Rightarrow> check CompatibleCollate Eval c0 a1)))
     else if FuncName_L scalar \<in> {ast_EQ, ast_NE, ast_GE, ast_GT, ast_LE, ast_LT, ast_NullEQ} then
       caseComparison CompatibleCollate Eval c scalar
     else if FuncName_L scalar = ast_IsNull then
       (let c1 = (if \<not> isFullLength c then c\<lparr>shouldReserve := True\<rparr> else c) in
        case index (GetArgs scalar) 0 of
          Inl p \<Rightarrow> Inl p
        | Inr a0 \<Rightarrow> Inr (checkColumn c1 a0, c1))
     else if FuncName_L scalar \<in> {ast_IsTruthWithoutNull, ast_IsFalsity, ast_IsTruthWithNull} then
       (case index (GetArgs scalar) 0 of
          Inl p \<Rightarrow> Inl p
        | Inr a0 \<Rightarrow>
            if (case a0 of ExprColumn s \<Rightarrow> EvalType (RetType s) = ETString | _ \<Rightarrow> False)
            then Inr (False, c)
            else (let c1 = (if \<not> isFullLength c then c\<lparr>shouldReserve := True\<rparr> else c) in
              Inr (checkColumn c1 a0, c1)))
     else if FuncName_L scalar = ast_UnaryNot then
       (case index (GetArgs scalar) 0 of
          Inl p \<Rightarrow> Inl p
        | Inr a0 \<Rightarrow>
            (case a0 of
               ExprScalarFunction s \<Rightarrow>
                 if FuncName_L s = ast_Like then Inr (False, c)
                 else check CompatibleCollate Eval c a0
             | _ \<Rightarrow> Inr (False, c)))
     else if FuncName_L scalar = ast_In then
       caseIn CompatibleCollate Eval c scalar
     else if FuncName_L scalar = ast_Like then
       checkLikeFunc CompatibleCollate
         (if \<not> isFullLength c then c\<lparr>shouldReserve := True\<rparr> else c) scalar
     else if FuncName_L scalar = ast_GetParam then Inr (True, c)
     else Inr (False, c))"
  by pat_completeness auto
termination
  by (relation "measure (\<lambda>x. case x of
        Inl (cc, ev, c, e) \<Rightarrow> 2 * size e
      | Inr (cc, ev, c, s) \<Rightarrow> 2 * size_ScalarFunction size s + 1)")
    (auto dest!: index_mem size_arg_less)

subsection \<open>The effect of a call on the checker\<close>

text \<open>
  The checker \<open>c'\<close> is \<open>c\<close>, or \<open>c\<close> with \<open>shouldReserve\<close> set: the only change
  a call may make.
\<close>

definition reservedOnly :: "conditionChecker \<Rightarrow> conditionChecker \<Rightarrow> bool" where
  "reservedOnly c c' = (c' = c \<or> c' = c\<lparr>shouldReserve := True\<rparr>)"

subsection \<open>Concrete inputs\<close>

text \<open>
  The inputs at which the theorems below are instantiated: an evaluation that returns
  the constant's stored value, string and integer datums, column types, and the
  expressions built from them.
\<close>

definition evalValue :: "Expression Constant \<Rightarrow> error + Datum" where
  "evalValue k = Inr (Value k)"

definition evalFails :: "Expression Constant \<Rightarrow> error + Datum" where
  "evalFails k = Inl (Error ''eval'')"

definition stringDatum :: "string \<Rightarrow> Datum" where
  "stringDatum s =
    \<lparr>Kind = KindString, GetBytes = s, GetInt64 = 0, IsNull = False, ToString = Inr s\<rparr>"

definition intDatum :: "64 word \<Rightarrow> string \<Rightarrow> Datum" where
  "intDatum n s =
    \<lparr>Kind = KindInt64, GetBytes = [], GetInt64 = n, IsNull = False, ToString = Inr s\<rparr>"

definition utf8mb4Type :: FieldType where
  "utf8mb4Type = \<lparr>EvalType = ETString, Charset = ''utf8mb4'', Collate = ''utf8mb4_bin''\<rparr>"

definition latin1Type :: FieldType where
  "latin1Type = \<lparr>EvalType = ETString, Charset = ''latin1'', Collate = ''latin1_bin''\<rparr>"

definition intType :: FieldType where
  "intType = \<lparr>EvalType = ETInt, Charset = ''binary'', Collate = ''binary''\<rparr>"

definition stringConst :: "string \<Rightarrow> Expression Constant" where
  "stringConst s = Constant (stringDatum s) utf8mb4Type None None"

definition intConst :: "64 word \<Rightarrow> string \<Rightarrow> Expression Constant" where
  "intConst n s = Constant (intDatum n s) intType None None"

definition column :: "64 word \<Rightarrow> FieldType \<Rightarrow> Expression" where
  "column n t = ExprColumn \<lparr>UniqueID = n, RetType = t\<rparr>"

definition scalarFunc :: "funcName \<Rightarrow> Expression list \<Rightarrow> Expression ScalarFunction" where
  "scalarFunc f args = ScalarFunction f args intType ''utf8mb4_bin''"

definition prefixChecker :: "int \<Rightarrow> conditionChecker" where
  "prefixChecker n = \<lparr>colUniqueID = 1, shouldReserve = False, length' = n, isFullLength = False\<rparr>"

text \<open>A literal of three runes in nine bytes of UTF-8 (U+65E5, U+672C, U+8A9E).\<close>

definition threeRunes :: string where
  "threeRunes =
    [CHR 0xE6, CHR 0x97, CHR 0xA5, CHR 0xE6, CHR 0x9C, CHR 0xAC, CHR 0xE8, CHR 0xAA, CHR 0x9E]"

lemmas concrete_defs = evalValue_def evalFails_def stringDatum_def intDatum_def utf8mb4Type_def
  latin1Type_def intType_def stringConst_def intConst_def column_def prefixChecker_def
  scalarFunc_def

section \<open>The prefix-length estimator\<close>

lemma RuneCountFrom_ge: "n \<le> RuneCountFrom p i n"
proof (induction p i n rule: RuneCountFrom.induct)
  case (1 p i n)
  show ?case
  proof (cases "i < length p")
    case True
    with 1 have "n + 1 \<le> RuneCountFrom p (i + runeStep p i) (n + 1)" by simp
    with True show ?thesis by (subst RuneCountFrom.simps) simp
  next
    case False
    then show ?thesis by (subst RuneCountFrom.simps) simp
  qed
qed

lemma RuneCount_nonneg: "0 \<le> RuneCount p"
  unfolding RuneCount_def by (rule RuneCountFrom_ge)

lemma RuneCountFrom_le: "i \<le> length p \<Longrightarrow> RuneCountFrom p i n \<le> n + int (length p - i)"
proof (induction p i n rule: RuneCountFrom.induct)
  case (1 p i n)
  show ?case
  proof (cases "i < length p")
    case True
    show ?thesis
    proof (cases "i + runeStep p i \<le> length p")
      case le: True
      from 1(1)[OF True le] runeStep_pos[of p i] True le
      show ?thesis by (subst RuneCountFrom.simps) auto
    next
      case gt: False
      then have "RuneCountFrom p (i + runeStep p i) (n + 1) = n + 1"
        by (subst RuneCountFrom.simps) simp
      with True show ?thesis by (subst RuneCountFrom.simps) auto
    qed
  next
    case False
    then show ?thesis by (subst RuneCountFrom.simps) simp
  qed
qed

lemma RuneCount_le_length: "RuneCount p \<le> int (length p)"
  using RuneCountFrom_le [of 0 p 0] by (simp add: RuneCount_def)

text \<open>
  On the UTF-8 encoding of a list of Unicode scalar values, \<open>RuneCount\<close> is the
  length of the list: each round of the loop advances by one encoded value.
\<close>

lemma nth_pre_Suc:
  "(pre @ x0 # x1 # xs) ! Suc (length pre) = x1"
  "(pre @ x0 # x1 # x2 # xs) ! Suc (Suc (length pre)) = x2"
  "(pre @ x0 # x1 # x2 # x3 # xs) ! Suc (Suc (Suc (length pre))) = x3"
  by (simp_all add: nth_append)

lemmas nth_pre = nth_append_length nth_pre_Suc

lemma of_char_char_of_nat: "n < 256 \<Longrightarrow> (of_char (char_of n) :: nat) = n"
  by simp

lemma runeStep_1:
  assumes "r \<le> 0x7F"
  shows "runeStep (pre @ EncodeRune r @ post) (length pre) = 1"
  using assms by (simp add: runeStep_def EncodeRune_def)

lemma runeStep_2:
  assumes "0x7F < r" "r \<le> 0x7FF"
  shows "runeStep (pre @ EncodeRune r @ post) (length pre) = 2"
proof -
  have l: "0xC0 + r div 64 < 256" "0xC2 \<le> 0xC0 + r div 64" "0xC0 + r div 64 \<le> 0xDF"
    using assms by auto
  have t: "0x80 + r mod 64 < 256" "0x80 \<le> 0x80 + r mod 64" "0x80 + r mod 64 \<le> 0xBF"
    by auto
  have f: "first (0xC0 + r div 64) = Some (2, 0x80, 0xBF)"
    using l by (simp add: first_def)
  show ?thesis
    using assms l t f
    by (simp add: runeStep_def EncodeRune_def nth_pre of_char_char_of_nat Let_def)
qed

lemma split64:
  fixes r :: nat
  shows "r = 64 * (r div 64) + r mod 64" "r mod 64 < 64"
    "r div 64 = 64 * (r div 4096) + r div 64 mod 64" "r div 64 mod 64 < 64"
    "r div 4096 = 64 * (r div 262144) + r div 4096 mod 64" "r div 4096 mod 64 < 64"
proof -
  show "r = 64 * (r div 64) + r mod 64" by simp
  show "r mod 64 < 64" by simp
  have "r div 64 div 64 = r div 4096" by (simp add: div_mult2_eq [symmetric])
  then show "r div 64 = 64 * (r div 4096) + r div 64 mod 64"
    using div_mult_mod_eq [of "r div 64" 64] by simp
  show "r div 64 mod 64 < 64" by simp
  have "r div 4096 div 64 = r div 262144" by (simp add: div_mult2_eq [symmetric])
  then show "r div 4096 = 64 * (r div 262144) + r div 4096 mod 64"
    using div_mult_mod_eq [of "r div 4096" 64] by simp
  show "r div 4096 mod 64 < 64" by simp
qed

lemma second_byte_E0: "(0x7FF::nat) < r \<Longrightarrow> r div 4096 = 0 \<Longrightarrow> 0x20 \<le> r div 64 mod 64"
  using split64(1-4) [of r] by linarith

lemma second_byte_ED: "scalarValue r \<Longrightarrow> r \<le> 0xFFFF \<Longrightarrow> r div 4096 = 13 \<Longrightarrow> r div 64 mod 64 \<le> 0x1F"
  unfolding scalarValue_def using split64(1-4) [of r] by linarith

lemma second_byte_F0: "(0xFFFF::nat) < r \<Longrightarrow> r div 262144 = 0 \<Longrightarrow> 0x10 \<le> r div 4096 mod 64"
  using split64 [of r] by linarith

lemma second_byte_F4: "r \<le> (0x10FFFF::nat) \<Longrightarrow> r div 262144 = 4 \<Longrightarrow> r div 4096 mod 64 \<le> 0xF"
  using split64 [of r] by linarith

lemma lead_byte_3: "(0x7FF::nat) < r \<Longrightarrow> r \<le> 0xFFFF \<Longrightarrow> r div 4096 \<le> 15"
  using split64 [of r] by linarith

lemma lead_byte_4: "(0xFFFF::nat) < r \<Longrightarrow> r \<le> 0x10FFFF \<Longrightarrow> r div 262144 \<le> 4"
  using split64 [of r] by linarith

lemma first_3:
  assumes "0xE0 \<le> b0" "b0 \<le> 0xEF" "0x80 \<le> b1" "b1 \<le> 0xBF"
    and "b0 = 0xE0 \<Longrightarrow> 0xA0 \<le> b1" and "b0 = 0xED \<Longrightarrow> b1 \<le> 0x9F"
  shows "\<exists>lo hi. first b0 = Some (3, lo, hi) \<and> lo \<le> b1 \<and> b1 \<le> hi"
proof -
  consider "b0 = 0xE0" | "0xE1 \<le> b0 \<and> b0 \<le> 0xEC" | "b0 = 0xED" | "0xEE \<le> b0 \<and> b0 \<le> 0xEF"
    using assms(1,2) by linarith
  then show ?thesis
    using assms(3-6) by cases (simp_all add: first_def)
qed

lemma first_4:
  assumes "0xF0 \<le> b0" "b0 \<le> 0xF4" "0x80 \<le> b1" "b1 \<le> 0xBF"
    and "b0 = 0xF0 \<Longrightarrow> 0x90 \<le> b1" and "b0 = 0xF4 \<Longrightarrow> b1 \<le> 0x8F"
  shows "\<exists>lo hi. first b0 = Some (4, lo, hi) \<and> lo \<le> b1 \<and> b1 \<le> hi"
proof -
  consider "b0 = 0xF0" | "0xF1 \<le> b0 \<and> b0 \<le> 0xF3" | "b0 = 0xF4"
    using assms(1,2) by linarith
  then show ?thesis
    using assms(3-6) by cases (simp_all add: first_def)
qed

lemma runeStep_bytes3:
  assumes "first b0 = Some (3, lo, hi)" "lo \<le> b1" "b1 \<le> hi" "0x80 \<le> b0" "b0 < 256" "b1 < 256"
    "0x80 \<le> b2" "b2 \<le> (0xBF::nat)"
  shows "runeStep (pre @ [char_of b0, char_of b1, char_of b2] @ post) (length pre) = 3"
  using assms by (simp add: runeStep_def nth_pre of_char_char_of_nat Let_def)

lemma runeStep_bytes4:
  assumes "first b0 = Some (4, lo, hi)" "lo \<le> b1" "b1 \<le> hi" "0x80 \<le> b0" "b0 < 256" "b1 < 256"
    "0x80 \<le> b2" "b2 \<le> (0xBF::nat)" "0x80 \<le> b3" "b3 \<le> (0xBF::nat)"
  shows "runeStep (pre @ [char_of b0, char_of b1, char_of b2, char_of b3] @ post) (length pre) = 4"
  using assms by (simp add: runeStep_def nth_pre of_char_char_of_nat Let_def)

lemma runeStep_3:
  assumes "0x7FF < r" "r \<le> 0xFFFF" "scalarValue r"
  shows "runeStep (pre @ EncodeRune r @ post) (length pre) = 3"
proof -
  define b0 where "b0 = 0xE0 + r div 4096"
  define b1 where "b1 = 0x80 + r div 64 mod 64"
  define b2 where "b2 = 0x80 + r mod 64"
  have e: "EncodeRune r = [char_of b0, char_of b1, char_of b2]"
    using assms by (simp add: EncodeRune_def b0_def b1_def b2_def)
  have l: "0xE0 \<le> b0" "b0 \<le> 0xEF"
    using lead_byte_3 [OF assms(1,2)] by (simp_all add: b0_def)
  have t1: "0x80 \<le> b1" "b1 \<le> 0xBF"
    using split64(4) [of r] by (simp_all add: b1_def)
  have t2: "0x80 \<le> b2" "b2 \<le> 0xBF"
    using split64(2) [of r] by (simp_all add: b2_def)
  have "b0 = 0xE0 \<Longrightarrow> 0xA0 \<le> b1"
    using second_byte_E0 [OF assms(1)] by (simp add: b0_def b1_def)
  moreover have "b0 = 0xED \<Longrightarrow> b1 \<le> 0x9F"
    using second_byte_ED [OF assms(3,2)] by (simp add: b0_def b1_def)
  ultimately obtain lo hi where f: "first b0 = Some (3, lo, hi)" "lo \<le> b1" "b1 \<le> hi"
    using first_3 [OF l t1] by blast
  show ?thesis
    unfolding e using f l t1 t2 by (intro runeStep_bytes3 [of b0 lo hi b1 b2]) simp_all
qed

lemma runeStep_4:
  assumes "0xFFFF < r" "r \<le> 0x10FFFF"
  shows "runeStep (pre @ EncodeRune r @ post) (length pre) = 4"
proof -
  define b0 where "b0 = 0xF0 + r div 262144"
  define b1 where "b1 = 0x80 + r div 4096 mod 64"
  define b2 where "b2 = 0x80 + r div 64 mod 64"
  define b3 where "b3 = 0x80 + r mod 64"
  have e: "EncodeRune r = [char_of b0, char_of b1, char_of b2, char_of b3]"
    using assms by (simp add: EncodeRune_def b0_def b1_def b2_def b3_def)
  have l: "0xF0 \<le> b0" "b0 \<le> 0xF4"
    using lead_byte_4 [OF assms] by (simp_all add: b0_def)
  have t1: "0x80 \<le> b1" "b1 \<le> 0xBF"
    using split64(6) [of r] by (simp_all add: b1_def)
  have t2: "0x80 \<le> b2" "b2 \<le> 0xBF"
    using split64(4) [of r] by (simp_all add: b2_def)
  have t3: "0x80 \<le> b3" "b3 \<le> 0xBF"
    using split64(2) [of r] by (simp_all add: b3_def)
  have "b0 = 0xF0 \<Longrightarrow> 0x90 \<le> b1"
    using second_byte_F0 [OF assms(1)] by (simp add: b0_def b1_def)
  moreover have "b0 = 0xF4 \<Longrightarrow> b1 \<le> 0x8F"
    using second_byte_F4 [OF assms(2)] by (simp add: b0_def b1_def)
  ultimately obtain lo hi where f: "first b0 = Some (4, lo, hi)" "lo \<le> b1" "b1 \<le> hi"
    using first_4 [OF l t1] by blast
  show ?thesis
    unfolding e using f l t1 t2 t3 by (intro runeStep_bytes4 [of b0 lo hi b1 b2 b3]) simp_all
qed

lemma length_EncodeRune:
  "length (EncodeRune r) =
    (if r \<le> 0x7F then 1 else if r \<le> 0x7FF then 2 else if r \<le> 0xFFFF then 3 else 4)"
  by (simp add: EncodeRune_def)

lemma runeStep_EncodeRune:
  assumes "scalarValue r"
  shows "runeStep (pre @ EncodeRune r @ post) (length pre) = length (EncodeRune r)"
proof -
  consider "r \<le> 0x7F" | "0x7F < r \<and> r \<le> 0x7FF" | "0x7FF < r \<and> r \<le> 0xFFFF"
    | "0xFFFF < r \<and> r \<le> 0x10FFFF"
    using assms unfolding scalarValue_def by linarith
  then show ?thesis
  proof cases
    case 1
    then show ?thesis using runeStep_1 [of r pre post] by (simp add: length_EncodeRune)
  next
    case 2
    then show ?thesis using runeStep_2 [of r pre post] by (simp add: length_EncodeRune)
  next
    case 3
    then show ?thesis using runeStep_3 [of r pre post] assms by (simp add: length_EncodeRune)
  next
    case 4
    then show ?thesis using runeStep_4 [of r pre post] by (simp add: length_EncodeRune)
  qed
qed

lemma RuneCountFrom_encoded:
  "\<forall>r \<in> set rs. scalarValue r \<Longrightarrow>
    RuneCountFrom (pre @ concat (map EncodeRune rs)) (length pre) n = n + int (length rs)"
proof (induction rs arbitrary: pre n)
  case Nil
  then show ?case by (subst RuneCountFrom.simps) simp
next
  case (Cons r rs)
  have pos: "0 < length (EncodeRune r)"
    by (simp add: length_EncodeRune)
  have step: "runeStep (pre @ concat (map EncodeRune (r # rs))) (length pre) = length (EncodeRune r)"
    using Cons.prems runeStep_EncodeRune [of r pre "concat (map EncodeRune rs)"] by simp
  have "RuneCountFrom (pre @ concat (map EncodeRune (r # rs))) (length pre) n
      = RuneCountFrom (pre @ concat (map EncodeRune (r # rs))) (length pre + length (EncodeRune r)) (n + 1)"
    using pos step by (subst RuneCountFrom.simps) simp
  also have "\<dots> = RuneCountFrom ((pre @ EncodeRune r) @ concat (map EncodeRune rs))
      (length (pre @ EncodeRune r)) (n + 1)"
    by simp
  also have "\<dots> = n + 1 + int (length rs)"
    using Cons.prems by (subst Cons.IH) simp_all
  finally show ?case by simp
qed

lemma RuneCount_encoded:
  "\<forall>r \<in> set rs. scalarValue r \<Longrightarrow> RuneCount (concat (map EncodeRune rs)) = int (length rs)"
  using RuneCountFrom_encoded [of rs "[]" 0] by (simp add: RuneCount_def)

lemma GetLengthOfPrefixableConstant_scalar_values:
  assumes "DeferredExpr k = None" and "ParamMarker k = None"
    and "Eval k = Inr val" and "Kind val = KindString \<or> Kind val = KindBytes"
    and "Charset tp = CharsetUTF8 \<or> Charset tp = CharsetUTF8MB4"
    and "GetBytes val = concat (map EncodeRune rs)" and "\<forall>r \<in> set rs. scalarValue r"
  shows "GetLengthOfPrefixableConstant Eval (Some k) tp = int (length rs)"
  using assms(1-6) RuneCount_encoded [OF assms(7)]
  by (auto simp: GetLengthOfPrefixableConstant_def Let_def)

lemma threeRunes_encoding: "concat (map EncodeRune [0x65E5, 0x672C, 0x8A9E]) = threeRunes"
  by (simp add: EncodeRune_def threeRunes_def char_of_def bit_0)

text \<open>
  C6. \<open>GetLengthOfPrefixableConstant\<close> never fails: for a nil constant, a constant
  with a deferred expression or a parameter marker, a constant whose evaluation
  returns an error, and a constant whose value is neither of kind string nor of kind
  bytes, it returns the sentinel \<open>-1\<close>; every result is \<open>-1\<close> or a length.
\<close>

theorem GetLengthOfPrefixableConstant_falls_back:
  "(c = None \<or> (\<exists>k. c = Some k \<and> (DeferredExpr k \<noteq> None \<or> ParamMarker k \<noteq> None
        \<or> (\<exists>err. Eval k = Inl err)
        \<or> (\<exists>val. Eval k = Inr val \<and> Kind val \<noteq> KindBytes \<and> Kind val \<noteq> KindString)))
     \<longrightarrow> GetLengthOfPrefixableConstant Eval c tp = -1)
   \<and> -1 \<le> GetLengthOfPrefixableConstant Eval c tp"
proof
  show "c = None \<or> (\<exists>k. c = Some k \<and> (DeferredExpr k \<noteq> None \<or> ParamMarker k \<noteq> None
        \<or> (\<exists>err. Eval k = Inl err)
        \<or> (\<exists>val. Eval k = Inr val \<and> Kind val \<noteq> KindBytes \<and> Kind val \<noteq> KindString)))
     \<longrightarrow> GetLengthOfPrefixableConstant Eval c tp = -1"
    by (auto simp: GetLengthOfPrefixableConstant_def)
next
  have "(-1::int) \<le> RuneCount p" for p
    using RuneCount_nonneg [of p] by linarith
  then show "-1 \<le> GetLengthOfPrefixableConstant Eval c tp"
    by (auto simp: GetLengthOfPrefixableConstant_def Let_def split: option.splits sum.splits)
qed

theorem GetLengthOfPrefixableConstant_falls_back_witness:
  "GetLengthOfPrefixableConstant evalValue None utf8mb4Type = -1
   \<and> GetLengthOfPrefixableConstant evalValue
       (Some (Constant (stringDatum ''abc'') utf8mb4Type (Some (column 1 utf8mb4Type)) None))
       utf8mb4Type = -1
   \<and> GetLengthOfPrefixableConstant evalValue
       (Some (Constant (stringDatum ''abc'') utf8mb4Type None (Some (NewParamMarker 0))))
       utf8mb4Type = -1
   \<and> GetLengthOfPrefixableConstant evalFails (Some (stringConst ''abc'')) utf8mb4Type = -1
   \<and> GetLengthOfPrefixableConstant evalValue (Some (intConst 7 ''7'')) utf8mb4Type = -1"
proof -
  note fb = GetLengthOfPrefixableConstant_falls_back [THEN conjunct1, rule_format]
  have "GetLengthOfPrefixableConstant evalValue None utf8mb4Type = -1"
    by (rule fb) simp
  moreover have "GetLengthOfPrefixableConstant evalValue
       (Some (Constant (stringDatum ''abc'') utf8mb4Type (Some (column 1 utf8mb4Type)) None))
       utf8mb4Type = -1"
    by (rule fb) simp
  moreover have "GetLengthOfPrefixableConstant evalValue
       (Some (Constant (stringDatum ''abc'') utf8mb4Type None (Some (NewParamMarker 0))))
       utf8mb4Type = -1"
    by (rule fb) simp
  moreover have "GetLengthOfPrefixableConstant evalFails (Some (stringConst ''abc'')) utf8mb4Type = -1"
    by (rule fb) (simp add: evalFails_def)
  moreover have "GetLengthOfPrefixableConstant evalValue (Some (intConst 7 ''7'')) utf8mb4Type = -1"
    by (rule fb) (simp add: concrete_defs)
  ultimately show ?thesis by simp
qed

text \<open>
  C7. For a constant that evaluates to a value of kind string or bytes,
  \<open>GetLengthOfPrefixableConstant\<close> returns \<open>utf8.RuneCount\<close> of the value's bytes
  when the column's charset is \<open>utf8\<close> or \<open>utf8mb4\<close>, and the number of bytes
  otherwise. The literal of three runes in nine bytes gives 3 against a \<open>utf8mb4\<close>
  column and 9 against a \<open>latin1\<close> column. On well-formed UTF-8 the rune count is the
  number of Unicode scalar values (\<open>RuneCount_encoded\<close>); an erroneous or short
  encoding counts as one rune for each such byte.
\<close>

theorem GetLengthOfPrefixableConstant_charset:
  assumes "DeferredExpr k = None" and "ParamMarker k = None"
    and "Eval k = Inr val" and "Kind val = KindString \<or> Kind val = KindBytes"
  shows "GetLengthOfPrefixableConstant Eval (Some k) tp =
    (if Charset tp = CharsetUTF8 \<or> Charset tp = CharsetUTF8MB4
     then RuneCount (GetBytes val) else int (length (GetBytes val)))"
  using assms by (auto simp: GetLengthOfPrefixableConstant_def Let_def)

theorem GetLengthOfPrefixableConstant_charset_witness:
  "GetLengthOfPrefixableConstant evalValue (Some (stringConst threeRunes)) utf8mb4Type = 3
   \<and> GetLengthOfPrefixableConstant evalValue (Some (stringConst threeRunes)) latin1Type = 9"
proof -
  have n: "RuneCount threeRunes = 3" by code_simp
  have l: "length threeRunes = 9" by (simp add: threeRunes_def)
  show ?thesis
    using GetLengthOfPrefixableConstant_charset
        [of "stringConst threeRunes" evalValue "stringDatum threeRunes" utf8mb4Type]
      GetLengthOfPrefixableConstant_charset
        [of "stringConst threeRunes" evalValue "stringDatum threeRunes" latin1Type] n l
    by (simp add: concrete_defs CharsetUTF8_def CharsetUTF8MB4_def)
qed

section \<open>The comparison operators\<close>

declare check.simps [simp del] checkScalarFunction.simps [simp del] likeLoop.simps [simp del]

lemma checkColumn_ExprColumn: "checkColumn c e \<Longrightarrow> \<exists>x. e = ExprColumn x"
  by (cases e) (simp_all add: checkColumn_def)

lemma checkColumn_reserve [simp]: "checkColumn (c\<lparr>shouldReserve := b\<rparr>) e = checkColumn c e"
  by (cases e) (simp_all add: checkColumn_def)

lemma check_ExprScalarFunction:
  "check CC Ev c (ExprScalarFunction s) = checkScalarFunction CC Ev c s"
  by (simp add: check.simps)

lemma caseComparison_const_first:
  assumes "GetArgs scalar = ExprConstant k # colArg # rest" and "checkColumn c colArg"
  shows "caseComparison CC Ev c scalar = Inr (compareConstWithColumn CC Ev c scalar k colArg)"
  using assms by (simp add: caseComparison_def index_def)

lemma caseComparison_const_second:
  assumes "GetArgs scalar = colArg # ExprConstant k # rest" and "checkColumn c colArg"
  shows "caseComparison CC Ev c scalar = Inr (compareConstWithColumn CC Ev c scalar k colArg)"
proof -
  from assms(2) obtain x where "colArg = ExprColumn x"
    using checkColumn_ExprColumn by blast
  with assms show ?thesis by (simp add: caseComparison_def index_def)
qed

lemma checkScalarFunction_comparison:
  "FuncName_L scalar \<in> {ast_EQ, ast_NE, ast_GE, ast_GT, ast_LE, ast_LT, ast_NullEQ}
    \<Longrightarrow> checkScalarFunction CC Ev c scalar = caseComparison CC Ev c scalar"
  by (subst checkScalarFunction.simps) auto

lemma length_abc:
  "GetLengthOfPrefixableConstant evalValue (Some (stringConst ''abc'')) utf8mb4Type = 3"
  by code_simp

lemma length_abcdefghijk:
  "GetLengthOfPrefixableConstant evalValue (Some (stringConst ''abcdefghijk'')) utf8mb4Type = 11"
  by code_simp

lemma length_intConst:
  "GetLengthOfPrefixableConstant evalValue (Some (intConst n s)) utf8mb4Type = -1"
  by (simp add: GetLengthOfPrefixableConstant_def concrete_defs)

lemma checkColumn_column: "checkColumn (prefixChecker n) (column 1 t)"
  by (simp add: checkColumn_def concrete_defs)

lemma GetType_column: "GetType (column n t) = t"
  by (simp add: column_def)

text \<open>
  C1. A not-equal comparison of a constant with the target column, in either argument
  order, in prefix mode and with a compatible collation when the column is a string:
  \<open>check\<close> returns true exactly when the constant's prefixable length is not \<open>-1\<close>
  and is less than the prefix length, and false otherwise; the checker, and so
  \<open>shouldReserve\<close>, is left as it was.
\<close>

theorem check_NE_prefix:
  assumes "FuncName_L scalar = ast_NE" and "\<not> isFullLength c"
    and "GetArgs scalar = [ExprConstant k, colArg] \<or> GetArgs scalar = [colArg, ExprConstant k]"
    and "checkColumn c colArg"
    and "EvalType (GetType colArg) = ETString
      \<longrightarrow> CompatibleCollate (Collate (GetType colArg)) (Collation scalar)"
  shows "check CompatibleCollate Eval c (ExprScalarFunction scalar) =
    Inr (GetLengthOfPrefixableConstant Eval (Some k) (GetType colArg) \<noteq> -1
         \<and> GetLengthOfPrefixableConstant Eval (Some k) (GetType colArg) < length' c, c)"
proof -
  have "caseComparison CompatibleCollate Eval c scalar =
      Inr (compareConstWithColumn CompatibleCollate Eval c scalar k colArg)"
    using assms(3,4) caseComparison_const_first caseComparison_const_second by blast
  moreover have "compareConstWithColumn CompatibleCollate Eval c scalar k colArg =
      (GetLengthOfPrefixableConstant Eval (Some k) (GetType colArg) \<noteq> -1
         \<and> GetLengthOfPrefixableConstant Eval (Some k) (GetType colArg) < length' c, c)"
    using assms(1,2,5) by (auto simp: compareConstWithColumn_def Let_def)
  ultimately show ?thesis
    using assms(1) by (simp add: check_ExprScalarFunction checkScalarFunction_comparison)
qed

theorem check_NE_prefix_witness:
  "check (=) evalValue (prefixChecker 10)
      (ExprScalarFunction
        (scalarFunc ast_NE [column 1 utf8mb4Type, ExprConstant (stringConst ''abc'')]))
     = Inr (True, prefixChecker 10)
   \<and> check (=) evalValue (prefixChecker 10)
      (ExprScalarFunction
        (scalarFunc ast_NE [ExprConstant (stringConst ''abcdefghijk''), column 1 utf8mb4Type]))
     = Inr (False, prefixChecker 10)"
proof -
  have a: "check (=) evalValue (prefixChecker 10)
      (ExprScalarFunction
        (scalarFunc ast_NE [column 1 utf8mb4Type, ExprConstant (stringConst ''abc'')]))
     = Inr (True, prefixChecker 10)"
    using check_NE_prefix
        [of "scalarFunc ast_NE [column 1 utf8mb4Type, ExprConstant (stringConst ''abc'')]"
          "prefixChecker 10" "stringConst ''abc''" "column 1 utf8mb4Type" "(=)" evalValue]
      checkColumn_column [of 10 utf8mb4Type] length_abc
    by (simp add: GetType_column scalarFunc_def) (simp add: prefixChecker_def utf8mb4Type_def)
  have b: "check (=) evalValue (prefixChecker 10)
      (ExprScalarFunction
        (scalarFunc ast_NE [ExprConstant (stringConst ''abcdefghijk''), column 1 utf8mb4Type]))
     = Inr (False, prefixChecker 10)"
    using check_NE_prefix
        [of "scalarFunc ast_NE [ExprConstant (stringConst ''abcdefghijk''), column 1 utf8mb4Type]"
          "prefixChecker 10" "stringConst ''abcdefghijk''" "column 1 utf8mb4Type" "(=)" evalValue]
      checkColumn_column [of 10 utf8mb4Type] length_abcdefghijk
    by (simp add: GetType_column scalarFunc_def) (simp add: prefixChecker_def utf8mb4Type_def)
  from a b show ?thesis by simp
qed

text \<open>
  C4. A comparison other than not-equal of a constant with the target column, in
  either argument order, in prefix mode and with a compatible collation when the
  column is a string: when the constant's prefixable length is \<open>-1\<close> or at least the
  prefix length, \<open>check\<close> returns true and sets \<open>shouldReserve\<close>.
\<close>

theorem check_comparison_reserves:
  assumes "FuncName_L scalar \<in> {ast_EQ, ast_GE, ast_GT, ast_LE, ast_LT, ast_NullEQ}"
    and "\<not> isFullLength c"
    and "GetArgs scalar = [ExprConstant k, colArg] \<or> GetArgs scalar = [colArg, ExprConstant k]"
    and "checkColumn c colArg"
    and "EvalType (GetType colArg) = ETString
      \<longrightarrow> CompatibleCollate (Collate (GetType colArg)) (Collation scalar)"
    and "GetLengthOfPrefixableConstant Eval (Some k) (GetType colArg) = -1
      \<or> GetLengthOfPrefixableConstant Eval (Some k) (GetType colArg) \<ge> length' c"
  shows "check CompatibleCollate Eval c (ExprScalarFunction scalar) =
    Inr (True, c\<lparr>shouldReserve := True\<rparr>)"
proof -
  have "caseComparison CompatibleCollate Eval c scalar =
      Inr (compareConstWithColumn CompatibleCollate Eval c scalar k colArg)"
    using assms(3,4) caseComparison_const_first caseComparison_const_second by blast
  moreover have "FuncName_L scalar \<noteq> ast_NE"
    using assms(1) by auto
  then have "compareConstWithColumn CompatibleCollate Eval c scalar k colArg =
      (True, c\<lparr>shouldReserve := True\<rparr>)"
    using assms(2,5,6) by (auto simp: compareConstWithColumn_def Let_def)
  moreover have "FuncName_L scalar \<in> {ast_EQ, ast_NE, ast_GE, ast_GT, ast_LE, ast_LT, ast_NullEQ}"
    using assms(1) by auto
  ultimately show ?thesis
    by (simp only: check_ExprScalarFunction checkScalarFunction_comparison)
qed

theorem check_comparison_reserves_witness:
  "check (=) evalValue (prefixChecker 10)
      (ExprScalarFunction
        (scalarFunc ast_EQ [ExprConstant (stringConst ''abcdefghijk''), column 1 utf8mb4Type]))
     = Inr (True, (prefixChecker 10)\<lparr>shouldReserve := True\<rparr>)
   \<and> check (=) evalValue (prefixChecker 10)
      (ExprScalarFunction
        (scalarFunc ast_LT [column 1 utf8mb4Type, ExprConstant (intConst 7 ''7'')]))
     = Inr (True, (prefixChecker 10)\<lparr>shouldReserve := True\<rparr>)"
proof -
  have a: "check (=) evalValue (prefixChecker 10)
      (ExprScalarFunction
        (scalarFunc ast_EQ [ExprConstant (stringConst ''abcdefghijk''), column 1 utf8mb4Type]))
     = Inr (True, (prefixChecker 10)\<lparr>shouldReserve := True\<rparr>)"
    using check_comparison_reserves
        [of "scalarFunc ast_EQ [ExprConstant (stringConst ''abcdefghijk''), column 1 utf8mb4Type]"
          "prefixChecker 10" "stringConst ''abcdefghijk''" "column 1 utf8mb4Type" "(=)" evalValue]
      checkColumn_column [of 10 utf8mb4Type] length_abcdefghijk
    by (simp add: GetType_column scalarFunc_def) (simp add: prefixChecker_def utf8mb4Type_def)
  have b: "check (=) evalValue (prefixChecker 10)
      (ExprScalarFunction
        (scalarFunc ast_LT [column 1 utf8mb4Type, ExprConstant (intConst 7 ''7'')]))
     = Inr (True, (prefixChecker 10)\<lparr>shouldReserve := True\<rparr>)"
    using check_comparison_reserves
        [of "scalarFunc ast_LT [column 1 utf8mb4Type, ExprConstant (intConst 7 ''7'')]"
          "prefixChecker 10" "intConst 7 ''7''" "column 1 utf8mb4Type" "(=)" evalValue]
      checkColumn_column [of 10 utf8mb4Type] length_intConst [of 7 "''7''"]
    by (simp add: GetType_column scalarFunc_def) (simp add: prefixChecker_def utf8mb4Type_def)
  from a b show ?thesis by simp
qed

section \<open>Logical NOT\<close>

lemma checkScalarFunction_UnaryNot:
  assumes "FuncName_L scalar = ast_UnaryNot" and "GetArgs scalar = a # rest"
  shows "checkScalarFunction CC Ev c scalar =
    (case a of
       ExprScalarFunction s \<Rightarrow> if FuncName_L s = ast_Like then Inr (False, c) else check CC Ev c a
     | _ \<Rightarrow> Inr (False, c))"
  using assms by (subst checkScalarFunction.simps) (simp add: index_def)

text \<open>
  C8. A logical NOT with operand \<open>a\<close>: \<open>check\<close> returns false when \<open>a\<close> is not a
  scalar function, false when \<open>a\<close> is a LIKE, and in every other case exactly what
  \<open>check\<close> returns for \<open>a\<close> itself, the boolean not inverted and the checker as the
  operand's walk leaves it.
\<close>

theorem check_UnaryNot:
  assumes "FuncName_L scalar = ast_UnaryNot" and "GetArgs scalar = a # rest"
  shows "((\<forall>s. a \<noteq> ExprScalarFunction s)
        \<longrightarrow> check CompatibleCollate Eval c (ExprScalarFunction scalar) = Inr (False, c))
    \<and> (\<forall>s. a = ExprScalarFunction s \<and> FuncName_L s = ast_Like
        \<longrightarrow> check CompatibleCollate Eval c (ExprScalarFunction scalar) = Inr (False, c))
    \<and> (\<forall>s. a = ExprScalarFunction s \<and> FuncName_L s \<noteq> ast_Like
        \<longrightarrow> check CompatibleCollate Eval c (ExprScalarFunction scalar)
            = check CompatibleCollate Eval c a)"
  using checkScalarFunction_UnaryNot [OF assms, of CompatibleCollate Eval c]
  by (cases a) (simp_all add: check_ExprScalarFunction)

theorem check_UnaryNot_witness:
  "check (=) evalValue (prefixChecker 10)
      (ExprScalarFunction (scalarFunc ast_UnaryNot [column 1 intType]))
     = Inr (False, prefixChecker 10)
   \<and> check (=) evalValue (prefixChecker 10)
      (ExprScalarFunction (scalarFunc ast_UnaryNot [ExprScalarFunction (scalarFunc ast_Like
        [column 1 utf8mb4Type, ExprConstant (stringConst ''abc''),
         ExprConstant (intConst 92 ''92'')])]))
     = Inr (False, prefixChecker 10)
   \<and> check (=) evalValue (prefixChecker 10)
      (ExprScalarFunction (scalarFunc ast_UnaryNot [ExprScalarFunction (scalarFunc ast_EQ
        [column 1 utf8mb4Type, ExprConstant (stringConst ''abc'')])]))
     = Inr (True, prefixChecker 10)"
proof -
  have a: "check (=) evalValue (prefixChecker 10)
      (ExprScalarFunction (scalarFunc ast_UnaryNot [column 1 intType]))
     = Inr (False, prefixChecker 10)"
    using check_UnaryNot [of "scalarFunc ast_UnaryNot [column 1 intType]" "column 1 intType" "[]"
        "(=)" evalValue "prefixChecker 10", THEN conjunct1]
    by (simp add: scalarFunc_def column_def)
  have b: "check (=) evalValue (prefixChecker 10)
      (ExprScalarFunction (scalarFunc ast_UnaryNot [ExprScalarFunction (scalarFunc ast_Like
        [column 1 utf8mb4Type, ExprConstant (stringConst ''abc''),
         ExprConstant (intConst 92 ''92'')])]))
     = Inr (False, prefixChecker 10)"
    using check_UnaryNot [of "scalarFunc ast_UnaryNot [ExprScalarFunction (scalarFunc ast_Like
        [column 1 utf8mb4Type, ExprConstant (stringConst ''abc''),
         ExprConstant (intConst 92 ''92'')])]"
        "ExprScalarFunction (scalarFunc ast_Like
        [column 1 utf8mb4Type, ExprConstant (stringConst ''abc''),
         ExprConstant (intConst 92 ''92'')])" "[]"
        "(=)" evalValue "prefixChecker 10", THEN conjunct2, THEN conjunct1]
    by (simp add: scalarFunc_def)
  have e: "check (=) evalValue (prefixChecker 10)
      (ExprScalarFunction (scalarFunc ast_EQ
        [column 1 utf8mb4Type, ExprConstant (stringConst ''abc'')]))
     = Inr (True, prefixChecker 10)"
    by code_simp
  have c: "check (=) evalValue (prefixChecker 10)
      (ExprScalarFunction (scalarFunc ast_UnaryNot [ExprScalarFunction (scalarFunc ast_EQ
        [column 1 utf8mb4Type, ExprConstant (stringConst ''abc'')])]))
     = Inr (True, prefixChecker 10)"
    using check_UnaryNot [of "scalarFunc ast_UnaryNot [ExprScalarFunction (scalarFunc ast_EQ
        [column 1 utf8mb4Type, ExprConstant (stringConst ''abc'')])]"
        "ExprScalarFunction (scalarFunc ast_EQ
        [column 1 utf8mb4Type, ExprConstant (stringConst ''abc'')])" "[]"
        "(=)" evalValue "prefixChecker 10", THEN conjunct2, THEN conjunct2] e
    by (simp add: scalarFunc_def)
  from a b c show ?thesis by simp
qed

section \<open>Rejection and the reservation flag\<close>

lemma checkScalarFunction_IsNull:
  assumes "FuncName_L scalar = ast_IsNull" and "GetArgs scalar = a # rest"
  shows "checkScalarFunction CC Ev c scalar =
    Inr (checkColumn c a, if \<not> isFullLength c then c\<lparr>shouldReserve := True\<rparr> else c)"
  using assms by (subst checkScalarFunction.simps) (simp add: index_def Let_def)

text \<open>
  C9. There is a walk that returns false and leaves \<open>shouldReserve\<close> set although it
  was not set before: in prefix mode, every IS NULL whose operand is not the target
  column returns false with the flag set, since the flag is set before the column is
  compared.
\<close>

theorem rejection_keeps_reservation:
  "(\<exists>c e c'. \<not> shouldReserve c
        \<and> check CompatibleCollate Eval c e = Inr (False, c') \<and> shouldReserve c')
   \<and> (\<forall>c scalar a rest. FuncName_L scalar = ast_IsNull \<and> GetArgs scalar = a # rest
        \<and> \<not> isFullLength c \<and> \<not> checkColumn c a
      \<longrightarrow> check CompatibleCollate Eval c (ExprScalarFunction scalar)
          = Inr (False, c\<lparr>shouldReserve := True\<rparr>))"
proof (intro conjI allI impI)
  have "check CompatibleCollate Eval (prefixChecker 10)
      (ExprScalarFunction (scalarFunc ast_IsNull [column 2 utf8mb4Type]))
    = Inr (False, (prefixChecker 10)\<lparr>shouldReserve := True\<rparr>)"
    by (simp add: check_ExprScalarFunction
        checkScalarFunction_IsNull [where a = "column 2 utf8mb4Type" and rest = "[]"]
        scalarFunc_def prefixChecker_def column_def checkColumn_def)
  moreover have "\<not> shouldReserve (prefixChecker 10)"
    by (simp add: prefixChecker_def)
  ultimately show "\<exists>c e c'. \<not> shouldReserve c
        \<and> check CompatibleCollate Eval c e = Inr (False, c') \<and> shouldReserve c'"
    by (intro exI [of _ "prefixChecker 10"]
        exI [of _ "ExprScalarFunction (scalarFunc ast_IsNull [column 2 utf8mb4Type])"]
        exI [of _ "(prefixChecker 10)\<lparr>shouldReserve := True\<rparr>"]) simp
next
  fix c scalar a rest
  assume "FuncName_L scalar = ast_IsNull \<and> GetArgs scalar = a # rest
        \<and> \<not> isFullLength c \<and> \<not> checkColumn c a"
  then show "check CompatibleCollate Eval c (ExprScalarFunction scalar)
          = Inr (False, c\<lparr>shouldReserve := True\<rparr>)"
    by (simp add: check_ExprScalarFunction checkScalarFunction_IsNull)
qed

theorem rejection_keeps_reservation_witness:
  "shouldReserve (prefixChecker 10) = False
   \<and> check (=) evalValue (prefixChecker 10)
        (ExprScalarFunction (scalarFunc ast_IsNull [column 2 utf8mb4Type]))
      = Inr (False,
          \<lparr>colUniqueID = 1, shouldReserve = True, length' = 10, isFullLength = False\<rparr>)"
  using rejection_keeps_reservation [of "(=)" evalValue, THEN conjunct2, rule_format,
      of "scalarFunc ast_IsNull [column 2 utf8mb4Type]" "column 2 utf8mb4Type" "[]"
        "prefixChecker 10"]
  by (simp add: scalarFunc_def prefixChecker_def column_def checkColumn_def)

section \<open>LIKE\<close>

text \<open>
  C10. \<open>checkLikeFunc\<close> asserts that the third argument is a constant without the
  \<open>ok\<close> result: when the collation, column and pattern tests pass and the pattern
  is not empty, a third argument of another dynamic type panics. When the third
  argument is a constant, \<open>checkLikeFunc\<close> returns a result and does not panic.
\<close>

theorem checkLikeFunc_escape_assertion:
  "(\<forall>a0 a1 k rest. GetArgs scalar = a0 # a1 # ExprConstant k # rest
      \<longrightarrow> (\<exists>r. checkLikeFunc CompatibleCollate c scalar = Inr r))
   \<and> (\<forall>a0 pattern patternStr a2 rest.
        GetArgs scalar = a0 # ExprConstant pattern # a2 # rest
        \<and> CompatibleCollate (Collate (GetType a0)) (Collation scalar) \<and> checkColumn c a0
        \<and> \<not> IsNull (Value pattern) \<and> ToString (Value pattern) = Inr patternStr
        \<and> patternStr \<noteq> [] \<and> (\<forall>k. a2 \<noteq> ExprConstant k)
      \<longrightarrow> checkLikeFunc CompatibleCollate c scalar = Inl TypeAssertion)"
proof (intro conjI allI impI)
  fix a0 a1 k rest
  assume "GetArgs scalar = a0 # a1 # ExprConstant k # rest"
  then show "\<exists>r. checkLikeFunc CompatibleCollate c scalar = Inr r"
    by (cases a1) (auto simp: checkLikeFunc_def index_def split: sum.splits)
next
  fix a0 pattern patternStr a2 rest
  assume "GetArgs scalar = a0 # ExprConstant pattern # a2 # rest
        \<and> CompatibleCollate (Collate (GetType a0)) (Collation scalar) \<and> checkColumn c a0
        \<and> \<not> IsNull (Value pattern) \<and> ToString (Value pattern) = Inr patternStr
        \<and> patternStr \<noteq> [] \<and> (\<forall>k. a2 \<noteq> ExprConstant k)"
  then show "checkLikeFunc CompatibleCollate c scalar = Inl TypeAssertion"
    by (cases a2) (auto simp: checkLikeFunc_def index_def)
qed

theorem checkLikeFunc_escape_assertion_witness:
  "(\<exists>r. checkLikeFunc (=) (prefixChecker 10) (scalarFunc ast_Like
        [column 1 utf8mb4Type, ExprConstant (stringConst ''a_c''),
         ExprConstant (intConst 92 ''92'')]) = Inr r)
   \<and> checkLikeFunc (=) (prefixChecker 10) (scalarFunc ast_Like
        [column 1 utf8mb4Type, ExprConstant (stringConst ''a_c''), column 3 intType])
      = Inl TypeAssertion"
proof -
  have a: "\<exists>r. checkLikeFunc (=) (prefixChecker 10) (scalarFunc ast_Like
        [column 1 utf8mb4Type, ExprConstant (stringConst ''a_c''),
         ExprConstant (intConst 92 ''92'')]) = Inr r"
    using checkLikeFunc_escape_assertion [of "scalarFunc ast_Like
        [column 1 utf8mb4Type, ExprConstant (stringConst ''a_c''),
         ExprConstant (intConst 92 ''92'')]" "(=)" "prefixChecker 10", THEN conjunct1]
    by (simp add: scalarFunc_def)
  have b: "checkLikeFunc (=) (prefixChecker 10) (scalarFunc ast_Like
        [column 1 utf8mb4Type, ExprConstant (stringConst ''a_c''), column 3 intType])
      = Inl TypeAssertion"
    using checkLikeFunc_escape_assertion [of "scalarFunc ast_Like
        [column 1 utf8mb4Type, ExprConstant (stringConst ''a_c''), column 3 intType]"
        "(=)" "prefixChecker 10", THEN conjunct2, rule_format,
        of "column 1 utf8mb4Type" "stringConst ''a_c''" "column 3 intType" "[]" "''a_c''"]
    by (simp add: concrete_defs checkColumn_def)
  from a b show ?thesis by simp
qed

lemma likeLoop_abc_percent: "likeLoop ''abc%'' escape 0 c = (True, c)"
  by (simp add: likeLoop.simps)

lemma checkScalarFunction_Like:
  "FuncName_L scalar = ast_Like \<Longrightarrow>
    checkScalarFunction CC Ev c scalar =
      checkLikeFunc CC (if \<not> isFullLength c then c\<lparr>shouldReserve := True\<rparr> else c) scalar"
  by (subst checkScalarFunction.simps) simp

text \<open>
  C2, as the code has it. A LIKE of the target column with the pattern \<open>abc%\<close> and
  any escape byte, with a compatible collation, in prefix mode: \<open>check\<close> returns
  true and \<open>shouldReserve\<close> is set after the walk, since the case \<open>ast.Like\<close> sets it
  before the pattern is read. The scan of the pattern, \<open>checkLikeFunc\<close>, returns
  true and leaves the checker as it finds it.
\<close>

theorem check_Like_abc_percent:
  assumes "FuncName_L scalar = ast_Like"
    and "GetArgs scalar = [colArg, ExprConstant pattern, ExprConstant esc]"
    and "checkColumn c colArg"
    and "CompatibleCollate (Collate (GetType colArg)) (Collation scalar)"
    and "\<not> IsNull (Value pattern)" and "ToString (Value pattern) = Inr ''abc%''"
    and "\<not> isFullLength c"
  shows "check CompatibleCollate Eval c (ExprScalarFunction scalar)
      = Inr (True, c\<lparr>shouldReserve := True\<rparr>)
    \<and> checkLikeFunc CompatibleCollate c scalar = Inr (True, c)"
proof -
  have l: "checkLikeFunc CompatibleCollate c' scalar = Inr (True, c')"
    if "checkColumn c' colArg" for c'
    using assms(2,4,5,6) that
    by (simp add: checkLikeFunc_def index_def likeLoop_abc_percent)
  show ?thesis
    using l [of c] l [of "c\<lparr>shouldReserve := True\<rparr>"] assms(1,3,7)
    by (simp add: check_ExprScalarFunction checkScalarFunction_Like)
qed

theorem check_Like_abc_percent_witness:
  "check (=) evalValue (prefixChecker 10)
      (ExprScalarFunction (scalarFunc ast_Like
        [column 1 utf8mb4Type, ExprConstant (stringConst ''abc%''),
         ExprConstant (intConst 92 ''92'')]))
     = Inr (True, (prefixChecker 10)\<lparr>shouldReserve := True\<rparr>)
   \<and> checkLikeFunc (=) (prefixChecker 10)
      (scalarFunc ast_Like
        [column 1 utf8mb4Type, ExprConstant (stringConst ''abc%''),
         ExprConstant (intConst 92 ''92'')])
     = Inr (True, prefixChecker 10)"
  using check_Like_abc_percent [of "scalarFunc ast_Like
        [column 1 utf8mb4Type, ExprConstant (stringConst ''abc%''),
         ExprConstant (intConst 92 ''92'')]" "column 1 utf8mb4Type" "stringConst ''abc%''"
      "intConst 92 ''92''" "prefixChecker 10" "(=)" evalValue]
  by (simp add: scalarFunc_def stringConst_def stringDatum_def checkColumn_column GetType_column)
    (simp add: utf8mb4Type_def prefixChecker_def)

text \<open>
  C2 as the spec states it fails: from a checker with \<open>shouldReserve\<close> false
  and prefix length 10, the walk over the LIKE with pattern \<open>abc%\<close> and escape byte
  92 returns true with \<open>shouldReserve\<close> true.
\<close>

theorem check_Like_abc_percent_unreserved_counterexample:
  "shouldReserve (prefixChecker 10) = False
   \<and> check (=) evalValue (prefixChecker 10)
      (ExprScalarFunction (scalarFunc ast_Like
        [column 1 utf8mb4Type, ExprConstant (stringConst ''abc%''),
         ExprConstant (intConst 92 ''92'')]))
     = Inr (True,
         \<lparr>colUniqueID = 1, shouldReserve = True, length' = 10, isFullLength = False\<rparr>)"
  by code_simp

section \<open>IN\<close>

lemma checkScalarFunction_In:
  "FuncName_L scalar = ast_In \<Longrightarrow>
    checkScalarFunction CC Ev c scalar = caseIn CC Ev c scalar"
  by (subst checkScalarFunction.simps) simp

text \<open>
  The collation test of the case \<open>ast.In\<close> reads the evaluation type of the second
  argument, the first element of the list, and the collation of the first argument,
  the column: an IN of the target column is rejected for its collation exactly when
  the first element of the list is string-like and the column's collation is not
  compatible.
\<close>

lemma check_In_collation_test:
  assumes "FuncName_L scalar = ast_In" and "GetArgs scalar = a0 # a1 # rest"
    and "checkColumn c a0"
  shows "check CC Ev c (ExprScalarFunction scalar) =
    (if EvalType (GetType a1) = ETString \<and> \<not> CC (Collate (GetType a0)) (Collation scalar)
     then Inr (False, c)
     else Inr (inLoop Ev (GetType a0) c (a1 # rest)))"
  using assms
  by (simp add: check_ExprScalarFunction checkScalarFunction_In caseIn_def index_def)

text \<open>
  C3 fails on the code. The target column is a string column with collation
  \<open>utf8mb4_bin\<close>, the function's collation is \<open>utf8mb4_general_ci\<close>, which the
  predicate used here (equality of the names) does not accept as compatible, and the
  only element of the list is an integer constant: \<open>check\<close> accepts the IN.
\<close>

theorem check_In_accepts_incompatible_collation:
  "EvalType (GetType (column 1 utf8mb4Type)) = ETString
   \<and> checkColumn (prefixChecker 10) (column 1 utf8mb4Type)
   \<and> (Collate (GetType (column 1 utf8mb4Type)) = ''utf8mb4_general_ci'') = False
   \<and> check (=) evalValue (prefixChecker 10)
      (ExprScalarFunction (ScalarFunction ast_In
        [column 1 utf8mb4Type, ExprConstant (intConst 7 ''7'')] intType ''utf8mb4_general_ci''))
     = Inr (True,
         \<lparr>colUniqueID = 1, shouldReserve = True, length' = 10, isFullLength = False\<rparr>)"
  by code_simp

section \<open>The reservation flag only rises\<close>

lemma reservedOnly_refl [simp]: "reservedOnly c c"
  by (simp add: reservedOnly_def)

lemma reservedOnly_set [simp]: "reservedOnly c (c\<lparr>shouldReserve := True\<rparr>)"
  by (simp add: reservedOnly_def)


















end
